theory Spec2Isabelle
  imports Main "HOL-Library.Word"
begin

section \<open>Tendermint light client: validity check and state update\<close>

text \<open>
  A shallow embedding of \<^verbatim>\<open>x/ibc/07-tendermint/update.go\<close>: the three functions
  \<^verbatim>\<open>CheckValidityAndUpdateState\<close>, \<^verbatim>\<open>checkValidity\<close> and \<^verbatim>\<open>update\<close>.
  The file declares no type of its own and calls five things it does not define; the
  data model below says for each where it comes from.
\<close>

subsection \<open>Data model\<close>

type_synonym bytes = "8 word list"

text \<open>\<^verbatim>\<open>time.Duration\<close> is a signed count of nanoseconds, \<^verbatim>\<open>time.Time\<close> an instant; the
  code only hands both to the verifier.\<close>

type_synonym Duration = int
type_synonym Time = int

text \<open>The trust level handed to the verifier is a fraction: numerator and denominator.\<close>

type_synonym Fraction = "int \<times> int"

text \<open>
  Modelled from the spec: the declaration of \<^verbatim>\<open>ClientState\<close> is not in update.go. The
  spec's data model gives it one field, \<open>latestHeight: integer\<close>; update.go reads and
  assigns \<^verbatim>\<open>clientState.LatestHeight\<close>. Heights are only compared and copied, never
  computed with, so no width is modelled.
\<close>

record ClientState =
  LatestHeight :: int

text \<open>
  Modelled from the spec: the declaration of \<^verbatim>\<open>Header\<close> is not in update.go. The
  spec's data model gives it \<open>height\<close>, \<open>signedHeader\<close> (opaque), \<open>validatorSet\<close>,
  \<open>nextValidatorSet\<close> and \<open>appHash\<close>; update.go reads \<^verbatim>\<open>Height\<close>,
  \<^verbatim>\<open>SignedHeader\<close>, \<^verbatim>\<open>ValidatorSet\<close> and \<^verbatim>\<open>AppHash\<close>. The signed header \<open>'sh\<close> and the
  (pointer to a) validator set \<open>'vs\<close> are opaque here: update.go only passes them on.
\<close>

record ('sh, 'vs) Header =
  Height :: int
  SignedHeader :: 'sh
  ValidatorSet :: 'vs
  NextValidatorSet :: 'vs
  AppHash :: bytes

text \<open>
  Modelled from the spec: the method \<^verbatim>\<open>Header.GetHeight\<close> is not in update.go. The spec
  knows one height per header, which this accessor reads.
\<close>

definition GetHeight :: "('sh, 'vs) Header \<Rightarrow> int" where
  "GetHeight h = Height h"

text \<open>The composite literal built at lines 99-102; \<open>'r\<close> is the commitment root type.\<close>

record 'r ConsensusState =
  Root :: 'r
  ValidatorSetHash :: bytes

text \<open>
  Values of the interfaces \<^verbatim>\<open>clientexported.ClientState\<close> and \<^verbatim>\<open>clientexported.Header\<close>:
  a value of this package's struct, or a value of any other dynamic type, of which only
  the name of the type is kept since update.go never looks inside. The nil interface
  value is \<open>None\<close> of the option type around these.
\<close>

datatype exported_ClientState =
  TendermintClientState ClientState
| OtherClientState string

datatype ('sh, 'vs) exported_Header =
  TendermintHeader "('sh, 'vs) Header"
| OtherHeader string

subsection \<open>Errors\<close>

text \<open>
  The two registered errors of \<^verbatim>\<open>clienttypes\<close> that update.go names, and an error value:
  either \<^verbatim>\<open>sdkerrors.Wrap(registered, message)\<close>, or an error \<open>'x\<close> made elsewhere (by
  the header's own validation or by the light-client library).
\<close>

datatype registered_error = ErrInvalidClientType | ErrInvalidHeader

datatype 'x error =
  Wrap registered_error string
| Foreign 'x


fun message :: "'x error \<Rightarrow> string option" where
  "message (Wrap r m) = Some m"
| "message (Foreign x) = None"

text \<open>The verb \<^verbatim>\<open>%d\<close> of \<^verbatim>\<open>Wrapf\<close>: a signed decimal numeral.\<close>

fun fmt_nat :: "nat \<Rightarrow> string" where
  "fmt_nat n =
     (if n < 10 then [''0123456789'' ! n]
      else fmt_nat (n div 10) @ [''0123456789'' ! (n mod 10)])"

definition fmt_d :: "int \<Rightarrow> string" where
  "fmt_d i = (if i < 0 then CHR ''-'' # fmt_nat (nat (- i)) else fmt_nat (nat i))"

text \<open>The two formatted messages of \<^verbatim>\<open>checkValidity\<close>. The first has the sign
  \<^verbatim>\<open>U+2264\<close> in the source, three bytes in UTF-8.\<close>

definition msg_height_le_old :: "int \<Rightarrow> int \<Rightarrow> string" where
  "msg_height_le_old n old =
     ''new header height '' @ [CHR 0xE2, CHR 0x89, CHR 0xA4] @ '' old header height (''
       @ fmt_d n @ '' <= '' @ fmt_d old @ '')''"

definition msg_height_lt_latest :: "int \<Rightarrow> int \<Rightarrow> string" where
  "msg_height_lt_latest n latest =
     ''header height < latest client state height ('' @ fmt_d n @ '' < '' @ fmt_d latest @ '')''"

subsection \<open>What update.go calls and does not define\<close>

text \<open>
  Parameters of the model, one field for each:
  \<^item> \<^verbatim>\<open>Header.ValidateBasic(chainID)\<close>, the header's own consistency check;
  \<^item> \<^verbatim>\<open>lite.Verify\<close>, the light-client verification, with its eight arguments in order;
  \<^item> the constant \<^verbatim>\<open>lite.DefaultTrustLevel\<close>;
  \<^item> \<^verbatim>\<open>commitment.NewRoot\<close>;
  \<^item> \<^verbatim>\<open>ValidatorSet.Hash\<close>.
  A Go \<^verbatim>\<open>error\<close> result is an option: \<open>None\<close> is nil.
\<close>

record ('sh, 'vs, 'r, 'x) extern =
  ValidateBasic :: "('sh, 'vs) Header \<Rightarrow> string \<Rightarrow> 'x error option"
  Verify :: "string \<Rightarrow> 'sh \<Rightarrow> 'vs \<Rightarrow> 'sh \<Rightarrow> 'vs \<Rightarrow> Duration \<Rightarrow> Time \<Rightarrow> Fraction
               \<Rightarrow> 'x error option"
  DefaultTrustLevel :: Fraction
  NewRoot :: "bytes \<Rightarrow> 'r"
  Hash :: "'vs \<Rightarrow> bytes"

subsection \<open>The functions of update.go\<close>

text \<open>
  \<^verbatim>\<open>checkValidity\<close>, lines 62-94. Besides the six Go parameters the model takes \<open>ext\<close>
  (above) and \<open>now\<close>, the value \<^verbatim>\<open>time.Now()\<close> reads from the process clock at line 92.
\<close>

definition checkValidity ::
  "('sh, 'vs, 'r, 'x) extern \<Rightarrow> Time \<Rightarrow> ClientState \<Rightarrow> ('sh, 'vs) Header \<Rightarrow> ('sh, 'vs) Header
     \<Rightarrow> 'vs \<Rightarrow> string \<Rightarrow> Duration \<Rightarrow> 'x error option" where
  "checkValidity ext now clientState oldHeader newHeader oldHeaderNextVals chainID trustingPeriod =
     (if Height newHeader \<le> Height oldHeader then
        Some (Wrap ErrInvalidHeader (msg_height_le_old (Height newHeader) (Height oldHeader)))
      else if GetHeight newHeader < LatestHeight clientState then
        Some (Wrap ErrInvalidHeader
               (msg_height_lt_latest (Height newHeader) (LatestHeight clientState)))
      else
        (case ValidateBasic ext newHeader chainID of
           Some err \<Rightarrow> Some err
         | None \<Rightarrow>
             Verify ext chainID (SignedHeader oldHeader) oldHeaderNextVals
               (SignedHeader newHeader) (ValidatorSet newHeader) trustingPeriod now
               (DefaultTrustLevel ext)))"

text \<open>\<^verbatim>\<open>update\<close>, lines 97-105. The client state is a struct passed by value: the
  assignment changes the copy that is returned.\<close>

definition update ::
  "('sh, 'vs, 'r, 'x) extern \<Rightarrow> ClientState \<Rightarrow> ('sh, 'vs) Header
     \<Rightarrow> ClientState \<times> 'r ConsensusState" where
  "update ext clientState header =
     (clientState\<lparr>LatestHeight := GetHeight header\<rparr>,
      \<lparr>Root = NewRoot ext (AppHash header),
       ValidatorSetHash = Hash ext (ValidatorSet header)\<rparr>)"

text \<open>The type assertions \<^verbatim>\<open>clientState.(ClientState)\<close> and \<^verbatim>\<open>header.(Header)\<close>:
  \<open>None\<close> is \<^verbatim>\<open>ok == false\<close>.\<close>

fun assert_ClientState :: "exported_ClientState option \<Rightarrow> ClientState option" where
  "assert_ClientState (Some (TendermintClientState c)) = Some c"
| "assert_ClientState (Some (OtherClientState t)) = None"
| "assert_ClientState None = None"

fun assert_Header :: "('sh, 'vs) exported_Header option \<Rightarrow> ('sh, 'vs) Header option" where
  "assert_Header (Some (TendermintHeader h)) = Some h"
| "assert_Header (Some (OtherHeader t)) = None"
| "assert_Header None = None"

text \<open>
  \<^verbatim>\<open>CheckValidityAndUpdateState\<close>, lines 24-59. The result is the Go triple: the client
  state and the consensus state as interface values (\<open>None\<close> is nil; the consensus state
  is never of another package's type) and the error.
\<close>

definition CheckValidityAndUpdateState ::
  "('sh, 'vs, 'r, 'x) extern \<Rightarrow> Time \<Rightarrow> exported_ClientState option
     \<Rightarrow> ('sh, 'vs) exported_Header option \<Rightarrow> ('sh, 'vs) exported_Header option
     \<Rightarrow> 'vs \<Rightarrow> string \<Rightarrow> Duration
     \<Rightarrow> exported_ClientState option \<times> 'r ConsensusState option \<times> 'x error option" where
  "CheckValidityAndUpdateState ext now clientState oldHeader newHeader oldHeaderNextVals
       chainID trustingPeriod =
     (case assert_ClientState clientState of
        None \<Rightarrow> (None, None, Some (Wrap ErrInvalidClientType ''light client is not from Tendermint''))
      | Some tmClientState \<Rightarrow>
     (case assert_Header oldHeader of
        None \<Rightarrow> (None, None, Some (Wrap ErrInvalidHeader ''header is not from Tendermint''))
      | Some tmHeader1 \<Rightarrow>
     (case assert_Header newHeader of
        None \<Rightarrow> (None, None, Some (Wrap ErrInvalidHeader ''header is not from Tendermint''))
      | Some tmHeader2 \<Rightarrow>
     (case checkValidity ext now tmClientState tmHeader1 tmHeader2 oldHeaderNextVals
             chainID trustingPeriod of
        Some err \<Rightarrow> (None, None, Some err)
      | None \<Rightarrow>
          (case update ext tmClientState tmHeader2 of
             (tmClientState', consensusState) \<Rightarrow>
               (Some (TendermintClientState tmClientState'), Some consensusState, None))))))"

subsection \<open>Sequences of updates\<close>

text \<open>
  One successful update of a client: some call of \<^verbatim>\<open>CheckValidityAndUpdateState\<close> on
  the client state \<open>c\<close> returns the client state \<open>c'\<close> and no error. A sequence of
  successful updates is the reflexive transitive closure of this step.
\<close>

inductive successful_update ::
  "('sh, 'vs, 'r, 'x) extern \<Rightarrow> ClientState \<Rightarrow> ClientState \<Rightarrow> bool" for ext where
  step: "CheckValidityAndUpdateState ext now (Some (TendermintClientState c)) oldHeader
           newHeader vals chainID period = (Some (TendermintClientState c'), cons, None)
         \<Longrightarrow> successful_update ext c c'"

subsection \<open>A small instance for concrete evaluations\<close>

text \<open>
  Stand-ins for the five parameters, used only where a statement is evaluated at
  concrete values: a signed header is reduced to its time, a validator set to a number;
  validation accepts the chain \<open>chain-A\<close>, verification rejects a trusted header older
  than the trusting period and nothing else.
\<close>

definition demo_ext :: "(Time, nat, bytes, string) extern" where
  "demo_ext =
     \<lparr>ValidateBasic = (\<lambda>h chainID. if chainID = ''chain-A'' then None
                                    else Some (Foreign ''wrong chain'')),
      Verify = (\<lambda>chainID trusted trustedVals untrusted untrustedVals period now level.
                  if period < now - trusted then Some (Foreign ''expired'') else None),
      DefaultTrustLevel = (1, 3),
      NewRoot = (\<lambda>hash. hash),
      Hash = (\<lambda>v. [of_nat v])\<rparr>"

definition demo_header :: "int \<Rightarrow> (Time, nat) Header" where
  "demo_header n =
     \<lparr>Height = n, SignedHeader = 1000 * n, ValidatorSet = 7, NextValidatorSet = 7,
      AppHash = [0xAB, of_int n]\<rparr>"


section \<open>Properties\<close>

text \<open>
  C1. With a Tendermint client state and two Tendermint headers, the new height above
  the old one and not below the client's latest height, a new header that passes its
  own validation and a verification that succeeds, the call succeeds: the client state
  returned has the new header's height as latest height, the consensus state returned
  has the root made from the new header's application hash and the hash of the new
  header's validator set.
\<close>

theorem update_succeeds:
  assumes "Height old < Height new"
    and "LatestHeight c \<le> Height new"
    and "ValidateBasic ext new chainID = None"
    and "Verify ext chainID (SignedHeader old) vals (SignedHeader new) (ValidatorSet new)
           period now (DefaultTrustLevel ext) = None"
  shows "CheckValidityAndUpdateState ext now (Some (TendermintClientState c))
           (Some (TendermintHeader old)) (Some (TendermintHeader new)) vals chainID period
         = (Some (TendermintClientState (c\<lparr>LatestHeight := Height new\<rparr>)),
            Some \<lparr>Root = NewRoot ext (AppHash new),
                  ValidatorSetHash = Hash ext (ValidatorSet new)\<rparr>,
            None)"
  using assms
  by (simp add: CheckValidityAndUpdateState_def checkValidity_def update_def GetHeight_def)

theorem update_succeeds_witness:
  "CheckValidityAndUpdateState demo_ext 100200
     (Some (TendermintClientState \<lparr>LatestHeight = 100\<rparr>))
     (Some (TendermintHeader (demo_header 100))) (Some (TendermintHeader (demo_header 101)))
     7 ''chain-A'' 500
   = (Some (TendermintClientState \<lparr>LatestHeight = 101\<rparr>),
      Some \<lparr>Root = [0xAB, 101], ValidatorSetHash = [7]\<rparr>, None)"
  using update_succeeds [of "demo_header 100" "demo_header 101" "\<lparr>LatestHeight = 100\<rparr>"
      demo_ext "''chain-A''" 7 500 100200]
  by (simp add: demo_ext_def demo_header_def)

subsection \<open>Shape of the results\<close>


lemma success_is_update:
  assumes "CheckValidityAndUpdateState ext now cs oh nh vals chainID period = (cs', cons', None)"
  shows "\<exists>c old new. cs = Some (TendermintClientState c) \<and> oh = Some (TendermintHeader old)
           \<and> nh = Some (TendermintHeader new)
           \<and> checkValidity ext now c old new vals chainID period = None
           \<and> cs' = Some (TendermintClientState (fst (update ext c new)))
           \<and> cons' = Some (snd (update ext c new))"
proof -
  from assms obtain c where c: "assert_ClientState cs = Some c"
    by (cases "assert_ClientState cs") (simp_all add: CheckValidityAndUpdateState_def)
  from assms c obtain old where old: "assert_Header oh = Some old"
    by (cases "assert_Header oh") (simp_all add: CheckValidityAndUpdateState_def)
  from assms c old obtain new where new: "assert_Header nh = Some new"
    by (cases "assert_Header nh") (simp_all add: CheckValidityAndUpdateState_def)
  from assms c old new have chk: "checkValidity ext now c old new vals chainID period = None"
    by (cases "checkValidity ext now c old new vals chainID period")
       (simp_all add: CheckValidityAndUpdateState_def)
  from c have 1: "cs = Some (TendermintClientState c)"
    by (cases cs rule: assert_ClientState.cases) simp_all
  from old have 2: "oh = Some (TendermintHeader old)"
    by (cases oh rule: assert_Header.cases) simp_all
  from new have 3: "nh = Some (TendermintHeader new)"
    by (cases nh rule: assert_Header.cases) simp_all
  from assms c old new chk have "cs' = Some (TendermintClientState (fst (update ext c new)))"
    and "cons' = Some (snd (update ext c new))"
    by (simp_all add: CheckValidityAndUpdateState_def split: prod.splits)
  with 1 2 3 chk show ?thesis by blast
qed

subsection \<open>Monotone latest height\<close>

lemma checkValidity_None_heights:
  "checkValidity ext now c old new vals chainID period = None \<Longrightarrow>
   Height old < Height new \<and> LatestHeight c \<le> GetHeight new"
  by (simp add: checkValidity_def split: if_splits)

lemma successful_update_mono:
  "successful_update ext c c' \<Longrightarrow> LatestHeight c \<le> LatestHeight c'"
proof (induction rule: successful_update.induct)
  case (step now c oldHeader newHeader vals chainID period c' cons)
  from success_is_update [OF step] obtain old new where
    chk: "checkValidity ext now c old new vals chainID period = None"
    and c': "c' = fst (update ext c new)"
    by auto
  from checkValidity_None_heights [OF chk] have "LatestHeight c \<le> GetHeight new" by simp
  with c' show ?case by (simp add: update_def)
qed

text \<open>
  C2. Across every sequence of successful updates the latest height of the client state
  does not decrease; a single successful update is the sequence of length one.
\<close>

theorem latestHeight_monotone:
  "rtranclp (successful_update ext) c c' \<Longrightarrow> LatestHeight c \<le> LatestHeight c'"
proof (induction rule: rtranclp_induct)
  case base
  show ?case by simp
next
  case (step y z)
  from step.hyps(2) have "LatestHeight y \<le> LatestHeight z" by (rule successful_update_mono)
  with step.IH show ?case by simp
qed

lemma demo_step:
  "n < m \<Longrightarrow> successful_update demo_ext \<lparr>LatestHeight = n\<rparr> \<lparr>LatestHeight = m\<rparr>"
  by (rule successful_update.step [where now = "1000 * n" and oldHeader = "Some (TendermintHeader (demo_header n))"
        and newHeader = "Some (TendermintHeader (demo_header m))" and vals = 7 and chainID = "''chain-A''"
        and period = 500 and cons = "Some \<lparr>Root = [0xAB, of_int m], ValidatorSetHash = [7]\<rparr>"])
     (simp add: CheckValidityAndUpdateState_def checkValidity_def update_def GetHeight_def
        demo_ext_def demo_header_def)

theorem latestHeight_monotone_witness:
  "rtranclp (successful_update demo_ext) \<lparr>LatestHeight = 100\<rparr> \<lparr>LatestHeight = 105\<rparr>
   \<and> LatestHeight \<lparr>LatestHeight = 100\<rparr> \<le> LatestHeight \<lparr>LatestHeight = 105\<rparr>"
proof -
  have 1: "successful_update demo_ext \<lparr>LatestHeight = 100\<rparr> \<lparr>LatestHeight = 101\<rparr>"
    by (rule demo_step) simp
  have 2: "successful_update demo_ext \<lparr>LatestHeight = 101\<rparr> \<lparr>LatestHeight = 105\<rparr>"
    by (rule demo_step) simp
  from 1 2 have r: "rtranclp (successful_update demo_ext) \<lparr>LatestHeight = 100\<rparr> \<lparr>LatestHeight = 105\<rparr>"
    by (meson rtranclp.rtrancl_into_rtrancl rtranclp.rtrancl_refl)
  from r latestHeight_monotone [OF r] show ?thesis by blast
qed

subsection \<open>Height rejections\<close>

text \<open>
  C3. When the new header's height is not above the old header's, the checker fails
  with the error of lines 71-74 (registered error \<open>ErrInvalidHeader\<close>, the message of
  the non-increasing height), and the call returns no client state and no consensus
  state with that error.
\<close>

theorem non_increasing_height_rejected:
  assumes "Height new \<le> Height old"
  shows "checkValidity ext now c old new vals chainID period
           = Some (Wrap ErrInvalidHeader (msg_height_le_old (Height new) (Height old)))
         \<and> CheckValidityAndUpdateState ext now (Some (TendermintClientState c))
             (Some (TendermintHeader old)) (Some (TendermintHeader new)) vals chainID period
           = (None, None,
              Some (Wrap ErrInvalidHeader (msg_height_le_old (Height new) (Height old))))"
  using assms by (simp add: CheckValidityAndUpdateState_def checkValidity_def)

theorem non_increasing_height_rejected_witness:
  "Height (demo_header 100) \<le> Height (demo_header 100)
   \<and> CheckValidityAndUpdateState demo_ext 100200
       (Some (TendermintClientState \<lparr>LatestHeight = 100\<rparr>))
       (Some (TendermintHeader (demo_header 100))) (Some (TendermintHeader (demo_header 100)))
       7 ''chain-A'' 500
     = (None, None,
        Some (Wrap ErrInvalidHeader
          (''new header height '' @ [CHR 0xE2, CHR 0x89, CHR 0xA4]
             @ '' old header height (100 <= 100)'')))"
proof -
  have h: "Height (demo_header 100) \<le> Height (demo_header 100)" by simp
  have m: "msg_height_le_old (Height (demo_header 100)) (Height (demo_header 100))
           = ''new header height '' @ [CHR 0xE2, CHR 0x89, CHR 0xA4]
               @ '' old header height (100 <= 100)''"
    by (simp add: msg_height_le_old_def fmt_d_def demo_header_def)
  from non_increasing_height_rejected [OF h, of demo_ext 100200 "\<lparr>LatestHeight = 100\<rparr>" 7
      "''chain-A''" 500] h m
  show ?thesis by simp
qed

text \<open>
  The statement of C4 without the condition on the old header fails: with the new
  height below the latest height and not above the old height, the first check answers,
  with the other message.
\<close>

theorem below_latest_counterexample:
  "GetHeight (demo_header 100) < LatestHeight \<lparr>LatestHeight = 150\<rparr>
   \<and> checkValidity demo_ext 100200 \<lparr>LatestHeight = 150\<rparr> (demo_header 100) (demo_header 100)
       7 ''chain-A'' 500
     = Some (Wrap ErrInvalidHeader
         (''new header height '' @ [CHR 0xE2, CHR 0x89, CHR 0xA4]
            @ '' old header height (100 <= 100)''))
   \<and> checkValidity demo_ext 100200 \<lparr>LatestHeight = 150\<rparr> (demo_header 100) (demo_header 100)
       7 ''chain-A'' 500
     \<noteq> Some (Wrap ErrInvalidHeader (msg_height_lt_latest 100 150))
   \<and> msg_height_lt_latest 100 150 = ''header height < latest client state height (100 < 150)''"
  by (simp add: checkValidity_def GetHeight_def demo_header_def msg_height_le_old_def
        msg_height_lt_latest_def fmt_d_def)

text \<open>
  C4, amended. When the new header's height is above the old header's and below the
  client's latest height, the checker fails with the error of lines 78-81 (registered
  error \<open>ErrInvalidHeader\<close>, the message of the height below the latest one); when it is
  above the old header's and equal to the latest height, this check passes and the
  result is that of the header's validation and of the verification.
\<close>

theorem below_latest_rejected:
  "(Height old < Height new \<and> GetHeight new < LatestHeight c \<longrightarrow>
      checkValidity ext now c old new vals chainID period
        = Some (Wrap ErrInvalidHeader (msg_height_lt_latest (Height new) (LatestHeight c))))
   \<and> (Height old < Height new \<and> GetHeight new = LatestHeight c \<longrightarrow>
      checkValidity ext now c old new vals chainID period
        = (case ValidateBasic ext new chainID of
             Some err \<Rightarrow> Some err
           | None \<Rightarrow> Verify ext chainID (SignedHeader old) vals (SignedHeader new)
                       (ValidatorSet new) period now (DefaultTrustLevel ext)))"
  by (simp add: checkValidity_def)

theorem below_latest_rejected_witness:
  "checkValidity demo_ext 100200 \<lparr>LatestHeight = 150\<rparr> (demo_header 100) (demo_header 120)
       7 ''chain-A'' 500
     = Some (Wrap ErrInvalidHeader ''header height < latest client state height (120 < 150)'')
   \<and> checkValidity demo_ext 100200 \<lparr>LatestHeight = 120\<rparr> (demo_header 100) (demo_header 120)
       7 ''chain-A'' 500 = None"
proof -
  have m: "msg_height_lt_latest 120 150 = ''header height < latest client state height (120 < 150)''"
    by (simp add: msg_height_lt_latest_def fmt_d_def)
  from below_latest_rejected [of "demo_header 100" "demo_header 120" "\<lparr>LatestHeight = 150\<rparr>"
      demo_ext 100200 7 "''chain-A''" 500]
  have 1: "checkValidity demo_ext 100200 \<lparr>LatestHeight = 150\<rparr> (demo_header 100) (demo_header 120)
       7 ''chain-A'' 500
     = Some (Wrap ErrInvalidHeader ''header height < latest client state height (120 < 150)'')"
    using m by (simp add: demo_header_def GetHeight_def)
  from below_latest_rejected [of "demo_header 100" "demo_header 120" "\<lparr>LatestHeight = 120\<rparr>"
      demo_ext 100200 7 "''chain-A''" 500]
  have 2: "checkValidity demo_ext 100200 \<lparr>LatestHeight = 120\<rparr> (demo_header 100) (demo_header 120)
       7 ''chain-A'' 500 = None"
    by (simp add: demo_header_def GetHeight_def demo_ext_def)
  from 1 2 show ?thesis by simp
qed

subsection \<open>All or nothing\<close>

lemma result_shape:
  "(\<exists>e. CheckValidityAndUpdateState ext now cs oh nh vals chainID period = (None, None, Some e))
   \<or> (\<exists>c s. CheckValidityAndUpdateState ext now cs oh nh vals chainID period
              = (Some c, Some s, None))"
  by (simp add: CheckValidityAndUpdateState_def split: option.split prod.split)

text \<open>
  C5. Whatever the call returns: with an error there is neither a client state nor a
  consensus state, without an error there are both; and an error of the checker is the
  error returned, unchanged.
\<close>

theorem all_or_nothing:
  assumes "CheckValidityAndUpdateState ext now cs oh nh vals chainID period = (cs', cons', err)"
  shows "(err \<noteq> None \<longrightarrow> cs' = None \<and> cons' = None)
       \<and> (err = None \<longrightarrow> cs' \<noteq> None \<and> cons' \<noteq> None)
       \<and> (\<forall>c old new e. cs = Some (TendermintClientState c) \<longrightarrow>
             oh = Some (TendermintHeader old) \<longrightarrow> nh = Some (TendermintHeader new) \<longrightarrow>
             checkValidity ext now c old new vals chainID period = Some e \<longrightarrow>
             (cs', cons', err) = (None, None, Some e))"
proof (intro conjI)
  from result_shape [of ext now cs oh nh vals chainID period] assms
  show "err \<noteq> None \<longrightarrow> cs' = None \<and> cons' = None" by auto
  from result_shape [of ext now cs oh nh vals chainID period] assms
  show "err = None \<longrightarrow> cs' \<noteq> None \<and> cons' \<noteq> None" by auto
  show "\<forall>c old new e. cs = Some (TendermintClientState c) \<longrightarrow>
             oh = Some (TendermintHeader old) \<longrightarrow> nh = Some (TendermintHeader new) \<longrightarrow>
             checkValidity ext now c old new vals chainID period = Some e \<longrightarrow>
             (cs', cons', err) = (None, None, Some e)"
    using assms
    by (auto simp: CheckValidityAndUpdateState_def)
qed

theorem all_or_nothing_witness:
  "CheckValidityAndUpdateState demo_ext 100900
     (Some (TendermintClientState \<lparr>LatestHeight = 100\<rparr>))
     (Some (TendermintHeader (demo_header 100))) (Some (TendermintHeader (demo_header 101)))
     7 ''chain-A'' 500 = (None, None, Some (Foreign ''expired''))
   \<and> checkValidity demo_ext 100900 \<lparr>LatestHeight = 100\<rparr> (demo_header 100) (demo_header 101)
       7 ''chain-A'' 500 = Some (Foreign ''expired'')"
proof -
  have r: "CheckValidityAndUpdateState demo_ext 100900
     (Some (TendermintClientState \<lparr>LatestHeight = 100\<rparr>))
     (Some (TendermintHeader (demo_header 100))) (Some (TendermintHeader (demo_header 101)))
     7 ''chain-A'' 500 = (None, None, Some (Foreign ''expired''))"
    by (simp add: CheckValidityAndUpdateState_def checkValidity_def GetHeight_def
          demo_ext_def demo_header_def)
  have k: "checkValidity demo_ext 100900 \<lparr>LatestHeight = 100\<rparr> (demo_header 100) (demo_header 101)
       7 ''chain-A'' 500 = Some (Foreign ''expired'')"
    by (simp add: checkValidity_def GetHeight_def demo_ext_def demo_header_def)
  from all_or_nothing [OF r] k r show ?thesis by simp
qed

subsection \<open>The clock\<close>






subsection \<open>Error kinds\<close>





subsection \<open>Type assertions\<close>

text \<open>
  The statement of C8 has every call with a header of another type fail with the
  error of the header type. The client state is asserted first: with a client state of
  another type as well, the error is the one of the client type.
\<close>

theorem type_check_order_counterexample:
  "assert_Header (Some (OtherHeader ''solomachine'') :: (Time, nat) exported_Header option) = None
   \<and> CheckValidityAndUpdateState demo_ext 100200 (Some (OtherClientState ''solomachine''))
       (Some (OtherHeader ''solomachine'')) (Some (TendermintHeader (demo_header 101)))
       7 ''chain-A'' 500
     = (None, None, Some (Wrap ErrInvalidClientType ''light client is not from Tendermint''))
   \<and> CheckValidityAndUpdateState demo_ext 100200 (Some (OtherClientState ''solomachine''))
       (Some (OtherHeader ''solomachine'')) (Some (TendermintHeader (demo_header 101)))
       7 ''chain-A'' 500
     \<noteq> (None, None, Some (Wrap ErrInvalidHeader ''header is not from Tendermint''))"
  by (simp add: CheckValidityAndUpdateState_def)

text \<open>
  C8, amended. A client state that is not this package's fails with \<open>ErrInvalidClientType\<close>;
  with a client state of this package, an old or a new header that is not this
  package's fails with \<open>ErrInvalidHeader\<close> and the message of the header type. In
  both cases the result is the same whatever the heights, the header's validation and
  the verification would say.
\<close>

theorem wrong_types_rejected_first:
  "(assert_ClientState cs = None \<longrightarrow>
      CheckValidityAndUpdateState ext now cs oh nh vals chainID period
      = (None, None, Some (Wrap ErrInvalidClientType ''light client is not from Tendermint'')))
   \<and> (assert_ClientState cs \<noteq> None \<and> (assert_Header oh = None \<or> assert_Header nh = None) \<longrightarrow>
      CheckValidityAndUpdateState ext now cs oh nh vals chainID period
      = (None, None, Some (Wrap ErrInvalidHeader ''header is not from Tendermint'')))"
  by (auto simp: CheckValidityAndUpdateState_def split: option.split)

theorem wrong_types_rejected_first_witness:
  "CheckValidityAndUpdateState demo_ext 100200 None
       (Some (TendermintHeader (demo_header 100))) (Some (TendermintHeader (demo_header 101)))
       7 ''chain-A'' 500
     = (None, None, Some (Wrap ErrInvalidClientType ''light client is not from Tendermint''))
   \<and> CheckValidityAndUpdateState demo_ext 100200
       (Some (TendermintClientState \<lparr>LatestHeight = 100\<rparr>))
       (Some (TendermintHeader (demo_header 100))) (Some (OtherHeader ''solomachine''))
       7 ''chain-A'' 500
     = (None, None, Some (Wrap ErrInvalidHeader ''header is not from Tendermint''))"
proof -
  from wrong_types_rejected_first [where cs = None and ext = demo_ext and now = 100200
      and oh = "Some (TendermintHeader (demo_header 100))"
      and nh = "Some (TendermintHeader (demo_header 101))"
      and vals = 7 and chainID = "''chain-A''" and period = 500]
  have 1: "CheckValidityAndUpdateState demo_ext 100200 None
       (Some (TendermintHeader (demo_header 100))) (Some (TendermintHeader (demo_header 101)))
       7 ''chain-A'' 500
     = (None, None, Some (Wrap ErrInvalidClientType ''light client is not from Tendermint''))"
    by simp
  from wrong_types_rejected_first
      [where cs = "Some (TendermintClientState \<lparr>LatestHeight = 100\<rparr>)" and ext = demo_ext
      and now = 100200 and oh = "Some (TendermintHeader (demo_header 100))"
      and nh = "Some (OtherHeader ''solomachine'')"
      and vals = 7 and chainID = "''chain-A''" and period = 500]
  have 2: "CheckValidityAndUpdateState demo_ext 100200
       (Some (TendermintClientState \<lparr>LatestHeight = 100\<rparr>))
       (Some (TendermintHeader (demo_header 100))) (Some (OtherHeader ''solomachine''))
       7 ''chain-A'' 500
     = (None, None, Some (Wrap ErrInvalidHeader ''header is not from Tendermint''))"
    by simp
  from 1 2 show ?thesis by simp
qed

subsection \<open>The updater\<close>


subsection \<open>The trust level\<close>



end
